theory Spec2Isabelle
  imports Complex_Main "HOL-Library.Word"
begin

section \<open>JavaScript strings and numbers\<close>

text \<open>
  A JavaScript string is a sequence of UTF-16 code units; \<open>length\<close>, \<open>charAt\<close> and
  \<open>slice\<close> count code units. \<open>lit\<close> embeds an ASCII literal of the source.
\<close>

type_synonym code_unit = "16 word"
type_synonym jsstring = "code_unit list"

definition lit :: "string \<Rightarrow> jsstring" where
  "lit s = map of_char s"

text \<open>The em dash U+2014 of the source literal for "no hand detected".\<close>

definition em_dash :: jsstring where
  "em_dash = [0x2014]"

text \<open>
  A JavaScript number is an IEEE 754 double: a finite value (kept as the rational it
  denotes), negative zero, NaN or an infinity. \<open>Fin 0\<close> is positive zero.
\<close>

datatype number = Fin rat | NegZero | NaN | PosInf | NegInf

section \<open>The state store (src/lib/state.ts)\<close>

datatype Status = Idle | Loading | RequestDone | Error

text \<open>
  \<open>interface DetectionResult { detectedLetter: string; confidenceNum: number;
  handDetected: string }\<close>, the fields in this order.
\<close>

datatype DetectionResult = DetectionResult jsstring number jsstring

text \<open>
  \<open>result?: DetectionResult\<close> is \<open>None\<close> when undefined; \<open>errorMessage\<close> is
  \<open>None\<close> when null.
\<close>

record AppStateShape =
  status :: Status
  result :: "DetectionResult option"
  errorMessage :: "jsstring option"

text \<open>
  \<open>window.dispatchEvent(new CustomEvent("stateChange", { detail: state }))\<close>: the
  event carries the state as it is at dispatch.
\<close>

datatype CustomEvent = CustomEvent (type: string) (detail: AppStateShape)

definition stateChange :: "AppStateShape \<Rightarrow> CustomEvent" where
  "stateChange s = CustomEvent ''stateChange'' s"

text \<open>
  The module: its singleton \<open>state\<close> and the events dispatched on \<open>window\<close> so far,
  oldest first.
\<close>

record store =
  state :: AppStateShape
  dispatched :: "CustomEvent list"

definition initial_state :: AppStateShape where
  "initial_state = \<lparr>status = Idle, result = None, errorMessage = None\<rparr>"

definition initial :: store where
  "initial = \<lparr>state = initial_state, dispatched = []\<rparr>"

definition dispatchEvent :: "store \<Rightarrow> store" where
  "dispatchEvent w = w\<lparr>dispatched := dispatched w @ [stateChange (state w)]\<rparr>"

definition getState :: "store \<Rightarrow> AppStateShape" where
  "getState w = state w"

definition getStatus :: "store \<Rightarrow> Status" where
  "getStatus w = status (state w)"

definition setStatus :: "Status \<Rightarrow> store \<Rightarrow> store" where
  "setStatus next w =
     (if next = status (state w) then w
      else dispatchEvent (w\<lparr>state := (state w)\<lparr>status := next\<rparr>\<rparr>))"

definition setResult :: "DetectionResult option \<Rightarrow> store \<Rightarrow> store" where
  "setResult r w = dispatchEvent (w\<lparr>state := (state w)\<lparr>result := r\<rparr>\<rparr>)"

definition setError :: "jsstring option \<Rightarrow> store \<Rightarrow> store" where
  "setError message w =
     dispatchEvent (w\<lparr>state := (state w)\<lparr>errorMessage := message, status := Error\<rparr>\<rparr>)"

definition reset :: "store \<Rightarrow> store" where
  "reset w =
     dispatchEvent
       (w\<lparr>state := (state w)\<lparr>status := Idle, result := None, errorMessage := None\<rparr>\<rparr>)"

text \<open>Sequences of store operations.\<close>

datatype operation =
  SetStatus Status
  | SetResult "DetectionResult option"
  | SetError "jsstring option"
  | Reset

fun apply_operation :: "store \<Rightarrow> operation \<Rightarrow> store" where
  "apply_operation w (SetStatus s) = setStatus s w"
| "apply_operation w (SetResult r) = setResult r w"
| "apply_operation w (SetError m) = setError m w"
| "apply_operation w Reset = reset w"

definition run :: "store \<Rightarrow> operation list \<Rightarrow> store" where
  "run w ops = foldl apply_operation w ops"

text \<open>The invariant of the data model: an error message only in status "error".\<close>

definition error_invariant :: "store \<Rightarrow> bool" where
  "error_invariant w = (errorMessage (state w) \<noteq> None \<longrightarrow> status (state w) = Error)"

text \<open>
  A sequence is guarded when no \<open>setStatus\<close> call in it moves the store to a status
  other than "error" while an error message is stored.
\<close>

fun guarded :: "store \<Rightarrow> operation list \<Rightarrow> bool" where
  "guarded w [] = True"
| "guarded w (SetStatus s # ops) =
     ((errorMessage (state w) = None \<or> s = Error) \<and> guarded (setStatus s w) ops)"
| "guarded w (x # ops) = guarded (apply_operation w x) ops"

text \<open>The events a run has added to those dispatched before it.\<close>

definition fired :: "store \<Rightarrow> store \<Rightarrow> CustomEvent list" where
  "fired w w' = drop (length (dispatched w)) (dispatched w')"

section \<open>JavaScript numbers: the arithmetic the module uses\<close>

definition pow2 :: "int \<Rightarrow> rat" where
  "pow2 e = (if 0 \<le> e then 2 ^ nat e else 1 / 2 ^ nat (- e))"

fun bit_length :: "nat \<Rightarrow> nat" where
  "bit_length n = (if n = 0 then 0 else Suc (bit_length (n div 2)))"

declare bit_length.simps [simp del]

text \<open>The floor of the binary logarithm of a positive rational.\<close>

definition ilog2 :: "rat \<Rightarrow> int" where
  "ilog2 a =
     (if 1 \<le> a then int (bit_length (nat \<lfloor>a\<rfloor>)) - 1
      else - int (bit_length (nat (\<lceil>1 / a\<rceil> - 1))))"

definition round_half_even :: "rat \<Rightarrow> int" where
  "round_half_even x =
     (let f = \<lfloor>x\<rfloor>; d = x - of_int f
      in if d < 1 / 2 then f else if 1 / 2 < d then f + 1
         else if even f then f else f + 1)"

text \<open>
  The Number value for a real: the nearest double, ties to the even significand
  (53 bits, exponents down to the subnormal \<open>2^-1074\<close>), an infinity from \<open>2^1024\<close> on.
\<close>

definition to_double :: "rat \<Rightarrow> number" where
  "to_double q =
     (if q = 0 then Fin 0
      else
        let a = \<bar>q\<bar>;
            e = max (ilog2 a - 52) (- 1074);
            m = round_half_even (a / pow2 e);
            v = of_int m * pow2 e
        in if 2 ^ 1024 \<le> v then (if 0 < q then PosInf else NegInf)
           else if m = 0 then (if 0 < q then Fin 0 else NegZero)
           else Fin (if 0 < q then v else - v))"

fun negative :: "number \<Rightarrow> bool" where
  "negative (Fin q) = (q < 0)"
| "negative NegZero = True"
| "negative NegInf = True"
| "negative PosInf = False"
| "negative NaN = False"

fun is_zero :: "number \<Rightarrow> bool" where
  "is_zero (Fin q) = (q = 0)"
| "is_zero NegZero = True"
| "is_zero _ = False"

fun is_infinite :: "number \<Rightarrow> bool" where
  "is_infinite PosInf = True"
| "is_infinite NegInf = True"
| "is_infinite _ = False"

fun magnitude :: "number \<Rightarrow> rat" where
  "magnitude (Fin q) = q"
| "magnitude _ = 0"

text \<open>The \<open>*\<close> of two Numbers (IEEE 754 multiplication).\<close>

definition times_number :: "number \<Rightarrow> number \<Rightarrow> number" where
  "times_number x y =
     (if x = NaN \<or> y = NaN then NaN
      else if is_infinite x \<or> is_infinite y then
        (if is_zero x \<or> is_zero y then NaN
         else if negative x \<noteq> negative y then NegInf else PosInf)
      else if is_zero x \<or> is_zero y then
        (if negative x \<noteq> negative y then NegZero else Fin 0)
      else to_double (magnitude x * magnitude y))"

text \<open>
  \<open>Math.round\<close>: the nearest integer, a half rounding up; a result of zero keeps the
  sign of the argument.
\<close>

fun Math_round :: "number \<Rightarrow> number" where
  "Math_round (Fin q) =
     (let r = \<lfloor>q + 1 / 2\<rfloor>
      in if r = 0 then (if q < 0 then NegZero else Fin 0) else Fin (of_int r))"
| "Math_round n = n"

text \<open>\<open>0 <= n && n <= 1\<close>.\<close>

fun in_unit_interval :: "number \<Rightarrow> bool" where
  "in_unit_interval (Fin q) = (0 \<le> q \<and> q \<le> 1)"
| "in_unit_interval NegZero = True"
| "in_unit_interval _ = False"

function decimal :: "nat \<Rightarrow> jsstring" where
  "decimal n = (if n < 10 then [48 + of_nat n] else decimal (n div 10) @ [48 + of_nat (n mod 10)])"
  by pat_completeness auto
termination
  by (relation "measure id") auto

declare decimal.simps [simp del]

section \<open>JavaScript values\<close>

text \<open>
  The values a parsed JSON document is made of, and \<open>undefined\<close>. An object is the list
  of its own properties in their order.
\<close>

datatype val =
  JUndef
  | JNull
  | JBool bool
  | JNum number
  | JStr jsstring
  | JArr "val list"
  | JObj "(jsstring \<times> val) list"

datatype exception = ThrownError jsstring | TypeError | SyntaxError

text \<open>
  The functions of the platform that this development takes as they are: the parsing
  of a string as a number (\<open>StringToNumber\<close>), the shortest decimal rendering of a
  number that is not an integer of at most 53 bits (\<open>Number::toString\<close>), the Unicode case
  conversion of a string that is not ASCII, and \<open>JSON.stringify\<close>. None of them throws
  on the values above.
\<close>

record platform =
  StringToNumber :: "jsstring \<Rightarrow> number"
  shortest_decimal :: "rat \<Rightarrow> jsstring"
  unicode_toUpperCase :: "jsstring \<Rightarrow> jsstring"
  JSON_stringify :: "val \<Rightarrow> jsstring"

fun Number_toString :: "platform \<Rightarrow> number \<Rightarrow> jsstring" where
  "Number_toString P NaN = lit ''NaN''"
| "Number_toString P PosInf = lit ''Infinity''"
| "Number_toString P NegInf = lit ''-Infinity''"
| "Number_toString P NegZero = lit ''0''"
| "Number_toString P (Fin q) =
     (if q = of_int \<lfloor>q\<rfloor> \<and> \<bar>q\<bar> \<le> 2 ^ 53 then
        (if q < 0 then lit ''-'' else []) @ decimal (nat \<bar>\<lfloor>q\<rfloor>\<bar>)
      else shortest_decimal P q)"

definition toUpperCase :: "platform \<Rightarrow> jsstring \<Rightarrow> jsstring" where
  "toUpperCase P s =
     (if \<forall>c \<in> set s. c < 0x80 then
        map (\<lambda>c. if 0x61 \<le> c \<and> c \<le> 0x7A then c - 0x20 else c) s
      else unicode_toUpperCase P s)"

definition charAt :: "jsstring \<Rightarrow> nat \<Rightarrow> jsstring" where
  "charAt s i = (if i < length s then [s ! i] else [])"

definition slice :: "jsstring \<Rightarrow> nat \<Rightarrow> jsstring" where
  "slice s i = drop i s"

text \<open>The property names the module reads.\<close>

datatype property =
  Detected_as | Predicted_as | Confidence | Metadata | Handedness | Landmarks
  | Right | Left | Length | Detail

fun name :: "property \<Rightarrow> jsstring" where
  "name Detected_as = lit ''detected_as''"
| "name Predicted_as = lit ''predicted_as''"
| "name Confidence = lit ''confidence''"
| "name Metadata = lit ''metadata''"
| "name Handedness = lit ''handedness''"
| "name Landmarks = lit ''landmarks''"
| "name Right = lit ''right''"
| "name Left = lit ''left''"
| "name Length = lit ''length''"
| "name Detail = lit ''detail''"

definition nullish :: "val \<Rightarrow> bool" where
  "nullish v = (v = JUndef \<or> v = JNull)"

text \<open>
  The property \<open>p\<close> of a value that is neither null nor undefined: an own property of
  an object, the length of an array or a string, and undefined otherwise (none of the
  names above is on a prototype).
\<close>

fun member :: "val \<Rightarrow> property \<Rightarrow> val" where
  "member (JObj kvs) p = (case map_of kvs (name p) of Some v \<Rightarrow> v | None \<Rightarrow> JUndef)"
| "member (JArr xs) p = (if p = Length then JNum (Fin (of_nat (length xs))) else JUndef)"
| "member (JStr s) p = (if p = Length then JNum (Fin (of_nat (length s))) else JUndef)"
| "member v p = JUndef"

text \<open>\<open>v.p\<close>, \<open>v?.p\<close>, \<open>v?.[0]\<close> and \<open>a ?? b\<close>.\<close>

definition get :: "val \<Rightarrow> property \<Rightarrow> exception + val" where
  "get v p = (if nullish v then Inl TypeError else Inr (member v p))"

definition opt :: "val \<Rightarrow> property \<Rightarrow> val" where
  "opt v p = (if nullish v then JUndef else member v p)"

fun opt_first :: "val \<Rightarrow> val" where
  "opt_first (JArr xs) = (case xs of [] \<Rightarrow> JUndef | x # _ \<Rightarrow> x)"
| "opt_first (JStr s) = (case s of [] \<Rightarrow> JUndef | c # _ \<Rightarrow> JStr [c])"
| "opt_first (JObj kvs) = (case map_of kvs (lit ''0'') of Some v \<Rightarrow> v | None \<Rightarrow> JUndef)"
| "opt_first v = JUndef"

definition coalesce :: "val \<Rightarrow> val \<Rightarrow> val" where
  "coalesce a b = (if nullish a then b else a)"

fun truthy :: "val \<Rightarrow> bool" where
  "truthy JUndef = False"
| "truthy JNull = False"
| "truthy (JBool b) = b"
| "truthy (JNum n) = (\<not> is_zero n \<and> n \<noteq> NaN)"
| "truthy (JStr s) = (s \<noteq> [])"
| "truthy (JArr xs) = True"
| "truthy (JObj kvs) = True"

text \<open>
  \<open>ToString\<close>. An array is its elements joined by commas, null and undefined elements
  empty. A parsed object has no callable property of its own: with an own \<open>toString\<close>
  property the conversion finds no method and throws, without one it is
  \<open>Object.prototype.toString\<close>.
\<close>

fun ToString :: "platform \<Rightarrow> val \<Rightarrow> exception + jsstring"
  and join :: "platform \<Rightarrow> val list \<Rightarrow> exception + jsstring" where
  "ToString P JUndef = Inr (lit ''undefined'')"
| "ToString P JNull = Inr (lit ''null'')"
| "ToString P (JBool b) = Inr (if b then lit ''true'' else lit ''false'')"
| "ToString P (JNum n) = Inr (Number_toString P n)"
| "ToString P (JStr s) = Inr s"
| "ToString P (JArr xs) = join P xs"
| "ToString P (JObj kvs) =
     (if lit ''toString'' \<in> fst ` set kvs then Inl TypeError
      else Inr (lit ''[object Object]''))"
| "join P [] = Inr []"
| "join P (x # xs) =
     (case (if nullish x then Inr [] else ToString P x) of
        Inl e \<Rightarrow> Inl e
      | Inr s \<Rightarrow>
          (if xs = [] then Inr s
           else case join P xs of Inl e \<Rightarrow> Inl e | Inr t \<Rightarrow> Inr (s @ lit '','' @ t)))"

text \<open>\<open>Number(v)\<close>: an array or an object is converted through its string.\<close>

fun ToNumber :: "platform \<Rightarrow> val \<Rightarrow> exception + number" where
  "ToNumber P JUndef = Inr NaN"
| "ToNumber P JNull = Inr (Fin 0)"
| "ToNumber P (JBool b) = Inr (if b then Fin 1 else Fin 0)"
| "ToNumber P (JNum n) = Inr n"
| "ToNumber P (JStr s) = Inr (StringToNumber P s)"
| "ToNumber P v =
     (case ToString P v of Inl e \<Rightarrow> Inl e | Inr s \<Rightarrow> Inr (StringToNumber P s))"

section \<open>Snapshot and upload (src/scripts/video-processing.js)\<close>

record detection =
  detectedLetter :: val
  confidenceNum :: number
  confidencePct :: jsstring
  handDetected :: jsstring

text \<open>
  \<open>record?.metadata?.handedness?.[0]\<close> and, for a side \<open>p\<close>,
  \<open>record?.metadata?.landmarks?.p\<close>.
\<close>

definition handedness_entry :: "val \<Rightarrow> val" where
  "handedness_entry record = opt_first (opt (opt record Metadata) Handedness)"

definition side_landmarks :: "val \<Rightarrow> property \<Rightarrow> val" where
  "side_landmarks record p = opt (opt (opt record Metadata) Landmarks) p"

text \<open>
  \<open>record?.metadata?.handedness?.[0] ?? (record?.metadata?.landmarks?.right?.length ?
  'right' : record?.metadata?.landmarks?.left?.length ? 'left' : null)\<close>
\<close>

definition handRaw :: "val \<Rightarrow> val" where
  "handRaw record =
     coalesce (handedness_entry record)
       (if truthy (opt (side_landmarks record Right) Length) then JStr (lit ''right'')
        else if truthy (opt (side_landmarks record Left) Length) then JStr (lit ''left'')
        else JNull)"

text \<open>
  \<open>handRaw ? handRaw.charAt(0).toUpperCase() + handRaw.slice(1) : em dash\<close>. Only a
  string has a \<open>charAt\<close> to call.
\<close>

fun capitalize :: "platform \<Rightarrow> val \<Rightarrow> exception + jsstring" where
  "capitalize P (JStr s) = Inr (toUpperCase P (charAt s 0) @ slice s 1)"
| "capitalize P v = Inl TypeError"

definition extractDetectionData :: "platform \<Rightarrow> val \<Rightarrow> exception + detection" where
  "extractDetectionData P record =
     (case get record Detected_as of
        Inl e \<Rightarrow> Inl e
      | Inr d \<Rightarrow>
          (case ToNumber P (coalesce (member record Confidence) (JNum (Fin 0))) of
             Inl e \<Rightarrow> Inl e
           | Inr num \<Rightarrow>
               (case (if truthy (handRaw record) then capitalize P (handRaw record)
                      else Inr em_dash) of
                  Inl e \<Rightarrow> Inl e
                | Inr hand \<Rightarrow>
                    Inr \<lparr>detectedLetter =
                           coalesce d (coalesce (member record Predicted_as) (JStr (lit ''-''))),
                         confidenceNum = num,
                         confidencePct =
                           Number_toString P (Math_round (times_number num (Fin 100)))
                             @ lit ''%'',
                         handDetected = hand\<rparr>)))"

text \<open>
  A \<open>Response\<close> of the Fetch API: its status and its body, the text received together
  with what \<open>JSON.parse\<close> makes of it (\<open>None\<close> when the text is not JSON). A response
  may have no body. A body is a stream that is read once (Fetch Standard, "consume
  body"): \<open>json()\<close> and \<open>text()\<close> both read it to its end before they parse or decode,
  and both reject with a TypeError when the stream has been read before; \<open>bodyUsed\<close>
  tells. With no body, both work on the empty byte sequence.
\<close>

record body =
  body_text :: jsstring
  parsed :: "val option"

record response =
  http_status :: nat
  content :: "body option"
  bodyUsed :: bool

definition ok :: "response \<Rightarrow> bool" where
  "ok r = (200 \<le> http_status r \<and> http_status r \<le> 299)"

definition response_json :: "response \<Rightarrow> (exception + val) \<times> response" where
  "response_json r =
     (case content r of
        None \<Rightarrow> (Inl SyntaxError, r)
      | Some b \<Rightarrow>
          if bodyUsed r then (Inl TypeError, r)
          else ((case parsed b of None \<Rightarrow> Inl SyntaxError | Some v \<Rightarrow> Inr v),
                r\<lparr>bodyUsed := True\<rparr>))"

definition response_text :: "response \<Rightarrow> (exception + jsstring) \<times> response" where
  "response_text r =
     (case content r of
        None \<Rightarrow> (Inr [], r)
      | Some b \<Rightarrow>
          if bodyUsed r then (Inl TypeError, r)
          else (Inr (body_text b), r\<lparr>bodyUsed := True\<rparr>))"

text \<open>
  \<open>handleServerError\<close> always throws; the value is what it throws. The \<open>catch\<close> block
  is entered from a failed \<open>response.json()\<close>, a failed \<open>payload.detail\<close> and a failed
  conversion of the detail to a string alike.
\<close>

definition errorDetail :: "platform \<Rightarrow> response \<Rightarrow> jsstring" where
  "errorDetail P r = lit ''HTTP '' @ Number_toString P (Fin (of_nat (http_status r)))"

definition catch_text :: "platform \<Rightarrow> response \<Rightarrow> response \<Rightarrow> exception" where
  "catch_text P r r' =
     (case fst (response_text r') of
        Inl e \<Rightarrow> e
      | Inr t \<Rightarrow> ThrownError (errorDetail P r @ lit '': '' @ t))"

definition handleServerError :: "platform \<Rightarrow> response \<Rightarrow> exception" where
  "handleServerError P r =
     (case response_json r of
        (Inl e, r') \<Rightarrow> catch_text P r r'
      | (Inr payload, r') \<Rightarrow>
          (case get payload Detail of
             Inl e \<Rightarrow> catch_text P r r'
           | Inr d \<Rightarrow>
               (case (if nullish d then Inr (JSON_stringify P payload) else ToString P d) of
                  Inl e \<Rightarrow> catch_text P r r'
                | Inr s \<Rightarrow> ThrownError (errorDetail P r @ lit '': '' @ s))))"

text \<open>
  The page as the capture flow sees it: the value of the checked radio of the group
  \<open>letter\<close> (\<open>None\<close> when none is checked), the module's \<open>video\<close> and \<open>offscreen\<close>
  (\<open>None\<close> until \<open>enableVideoProcessing\<close> has set them; otherwise the current frame
  and the canvas content), \<open>window.MSL_STATE\<close>, the text of the three result elements
  (\<open>None\<close> for an element the page does not have), the state store, and what the
  flow has done to the outside: alerts, console output, requests sent.
\<close>

type_synonym frame = "nat list"

datatype blob = Png frame

record request =
  endpoint :: jsstring
  http_method :: string
  image :: blob
  filename :: jsstring
  label :: jsstring

record msl_state =
  lastDetectedLetter :: val
  lastConfidenceNum :: number
  lastConfidencePct :: jsstring
  lastHand :: jsstring

datatype console_entry = ConsoleLog val | ConsoleError exception

record page =
  checked_letter :: "jsstring option"
  video :: "frame option"
  offscreen :: "frame option"
  MSL_STATE :: "msl_state option"
  resultLetter :: "jsstring option"
  resultConfidence :: "jsstring option"
  resultHand :: "jsstring option"
  app :: store
  alerts :: "jsstring list"
  console :: "console_entry list"
  requests :: "request list"

text \<open>
  What the flow reads from outside the page: the build setting \<open>PUBLIC_API_URL\<close>, the
  value \<open>crypto.randomUUID()\<close> returns, and the answer of the network to a request (a
  rejected \<open>fetch\<close> is an exception).
\<close>

record environment =
  PUBLIC_API_URL :: "jsstring option"
  randomUUID :: jsstring
  fetch :: "request \<Rightarrow> exception + response"

text \<open>\<open>(import.meta.env.PUBLIC_API_URL || 'http://127.0.0.1:8000').replace(/\/$/, '')\<close>\<close>

definition API_URL :: "environment \<Rightarrow> jsstring" where
  "API_URL env =
     (let raw = (case PUBLIC_API_URL env of
                   None \<Rightarrow> lit ''http://127.0.0.1:8000''
                 | Some u \<Rightarrow> if u = [] then lit ''http://127.0.0.1:8000'' else u)
      in if raw \<noteq> [] \<and> last raw = 0x2F then butlast raw else raw)"

text \<open>\<open>selected?.value || null\<close>\<close>

definition getSelectedLetter :: "page \<Rightarrow> jsstring option" where
  "getSelectedLetter pg =
     (case checked_letter pg of
        None \<Rightarrow> None
      | Some v \<Rightarrow> if v = [] then None else Some v)"

definition captureVideoFrame :: "page \<Rightarrow> (exception + blob) \<times> page" where
  "captureVideoFrame pg =
     (case offscreen pg of
        None \<Rightarrow> (Inl TypeError, pg)
      | Some c \<Rightarrow>
          (case video pg of
             None \<Rightarrow> (Inl TypeError, pg)
           | Some f \<Rightarrow> (Inr (Png f), pg\<lparr>offscreen := Some f\<rparr>)))"

definition sendImageToServer ::
  "platform \<Rightarrow> environment \<Rightarrow> blob \<Rightarrow> jsstring \<Rightarrow> page \<Rightarrow> (exception + response) \<times> page" where
  "sendImageToServer P env b letter pg =
     (let req = \<lparr>endpoint = API_URL env @ lit ''/process/'',
                 http_method = ''POST'',
                 image = b,
                 filename = letter @ lit ''_'' @ takeWhile (\<lambda>c. c \<noteq> 0x2D) (randomUUID env)
                   @ lit ''.png'',
                 label = letter\<rparr>;
          pg' = pg\<lparr>requests := requests pg @ [req]\<rparr>
      in case fetch env req of
           Inl e \<Rightarrow> (Inl e, pg')
         | Inr r \<Rightarrow> if \<not> ok r then (Inl (handleServerError P r), pg') else (Inr r, pg'))"

definition processServerResponse ::
  "platform \<Rightarrow> response \<Rightarrow> page \<Rightarrow> (exception + detection) \<times> page" where
  "processServerResponse P r pg =
     (case fst (response_json r) of
        Inl e \<Rightarrow> (Inl e, pg)
      | Inr record \<Rightarrow>
          (extractDetectionData P record, pg\<lparr>console := console pg @ [ConsoleLog record]\<rparr>))"

text \<open>
  \<open>updateResultsUI\<close>: the snapshot is stored first; each element that exists gets its
  text, the letter through the conversion of the template literal.
\<close>

definition updateResultsUI :: "platform \<Rightarrow> detection \<Rightarrow> page \<Rightarrow> exception option \<times> page" where
  "updateResultsUI P d pg =
     (let pg1 = pg\<lparr>MSL_STATE := Some \<lparr>lastDetectedLetter = detectedLetter d,
                                        lastConfidenceNum = confidenceNum d,
                                        lastConfidencePct = confidencePct d,
                                        lastHand = handDetected d\<rparr>\<rparr>;
          pg2 = (if resultConfidence pg1 = None then pg1
                 else pg1\<lparr>resultConfidence := Some (lit ''Confidence: '' @ confidencePct d)\<rparr>);
          pg3 = (if resultHand pg2 = None then pg2
                 else pg2\<lparr>resultHand := Some (lit ''Hand detected: '' @ handDetected d)\<rparr>)
      in if resultLetter pg1 = None then (None, pg3)
         else case ToString P (detectedLetter d) of
                Inl e \<Rightarrow> (Some e, pg1)
              | Inr s \<Rightarrow> (None, pg3\<lparr>resultLetter := Some (lit ''Letter detected: '' @ s)\<rparr>))"

definition log_error :: "exception \<Rightarrow> page \<Rightarrow> page" where
  "log_error e pg = pg\<lparr>console := console pg @ [ConsoleError e]\<rparr>"

text \<open>The click handler that \<open>captureSnapshot\<close> installs on the capture button.\<close>

definition captureSnapshot :: "platform \<Rightarrow> environment \<Rightarrow> page \<Rightarrow> page" where
  "captureSnapshot P env pg =
     (case getSelectedLetter pg of
        None \<Rightarrow> pg\<lparr>alerts := alerts pg @ [lit ''Please select a letter before capturing.'']\<rparr>
      | Some letter \<Rightarrow>
          (case captureVideoFrame pg of
             (Inl e, pg1) \<Rightarrow> log_error e pg1
           | (Inr b, pg1) \<Rightarrow>
               (case sendImageToServer P env b letter pg1 of
                  (Inl e, pg2) \<Rightarrow> log_error e pg2
                | (Inr r, pg2) \<Rightarrow>
                    (case processServerResponse P r pg2 of
                       (Inl e, pg3) \<Rightarrow> log_error e pg3
                     | (Inr d, pg3) \<Rightarrow>
                         (case updateResultsUI P d pg3 of
                            (Some e, pg4) \<Rightarrow> log_error e pg4
                          | (None, pg4) \<Rightarrow> pg4)))))"

section \<open>The shape of a success response\<close>

text \<open>
  The response of the interface description: \<open>confidence?: number\<close>, \<open>handedness?:
  string[]\<close>, \<open>left?: array\<close>, \<open>right?: array\<close>, each of them possibly absent or null.
\<close>

definition confidence_is_number :: "val \<Rightarrow> bool" where
  "confidence_is_number record =
     (case member record Confidence of
        JUndef \<Rightarrow> True | JNull \<Rightarrow> True | JNum n \<Rightarrow> True | _ \<Rightarrow> False)"

definition confidence_in_range :: "val \<Rightarrow> bool" where
  "confidence_in_range record =
     (case member record Confidence of
        JUndef \<Rightarrow> True | JNull \<Rightarrow> True | JNum n \<Rightarrow> in_unit_interval n | _ \<Rightarrow> False)"

definition handedness_is_string :: "val \<Rightarrow> bool" where
  "handedness_is_string record =
     (case handedness_entry record of
        JUndef \<Rightarrow> True | JNull \<Rightarrow> True | JStr s \<Rightarrow> True | _ \<Rightarrow> False)"

definition handedness_is_side :: "val \<Rightarrow> bool" where
  "handedness_is_side record =
     (case handedness_entry record of
        JUndef \<Rightarrow> True
      | JNull \<Rightarrow> True
      | JStr s \<Rightarrow> s = lit ''left'' \<or> s = lit ''right'' \<or> s = lit ''Left'' \<or> s = lit ''Right''
      | _ \<Rightarrow> False)"

definition no_landmarks :: "val \<Rightarrow> bool" where
  "no_landmarks v = (v = JUndef \<or> v = JNull \<or> v = JArr [])"

fun nonempty_list :: "val \<Rightarrow> bool" where
  "nonempty_list (JArr (x # xs)) = True"
| "nonempty_list v = False"

fun is_object :: "val \<Rightarrow> bool" where
  "is_object (JObj kvs) = True"
| "is_object v = False"

fun is_string :: "val \<Rightarrow> bool" where
  "is_string (JStr s) = True"
| "is_string v = False"

fun is_number :: "val \<Rightarrow> bool" where
  "is_number (JNum n) = True"
| "is_number v = False"

fun is_array :: "val \<Rightarrow> bool" where
  "is_array (JArr xs) = True"
| "is_array v = False"

fun is_string_array :: "val \<Rightarrow> bool" where
  "is_string_array (JArr xs) = list_all is_string xs"
| "is_string_array v = False"

text \<open>A field marked \<open>?\<close>: absent, null, or of its type.\<close>

definition optional :: "(val \<Rightarrow> bool) \<Rightarrow> val \<Rightarrow> bool" where
  "optional p v = (nullish v \<or> p v)"

text \<open>
  The success response as the interface description gives it:
  \<open>{ detected_as?: string, predicted_as?: string, confidence?: number, metadata?:
  { handedness?: string[], landmarks?: { left?: array, right?: array } } }\<close>.
\<close>

definition landmarks_shape :: "val \<Rightarrow> bool" where
  "landmarks_shape l =
     (is_object l \<and> optional is_array (member l Left) \<and> optional is_array (member l Right))"

definition metadata_shape :: "val \<Rightarrow> bool" where
  "metadata_shape m =
     (is_object m \<and> optional is_string_array (member m Handedness)
      \<and> optional landmarks_shape (member m Landmarks))"

definition success_response :: "val \<Rightarrow> bool" where
  "success_response record =
     (is_object record
      \<and> optional is_string (member record Detected_as)
      \<and> optional is_string (member record Predicted_as)
      \<and> optional is_number (member record Confidence)
      \<and> optional metadata_shape (member record Metadata))"

text \<open>Pages and an environment to evaluate the capture flow at.\<close>

definition blank_page :: page where
  "blank_page =
     \<lparr>checked_letter = None, video = Some [1, 2, 3], offscreen = Some [],
      MSL_STATE = None, resultLetter = Some [], resultConfidence = Some [],
      resultHand = Some [], app = initial, alerts = [], console = [], requests = []\<rparr>"

definition offline :: environment where
  "offline =
     \<lparr>PUBLIC_API_URL = None,
      randomUUID = lit ''0f8fad5b-d9cb-469f-a165-70867728950e'',
      fetch = (\<lambda>req. Inl TypeError)\<rparr>"

text \<open>
  A platform to evaluate at. The closed statements below are about numbers and ASCII
  strings, on which none of its functions is called.
\<close>

definition a_platform :: platform where
  "a_platform =
     \<lparr>StringToNumber = (\<lambda>s. NaN), shortest_decimal = (\<lambda>q. []),
      unicode_toUpperCase = (\<lambda>s. s), JSON_stringify = (\<lambda>v. [])\<rparr>"

section \<open>The state store: properties\<close>

lemma guarded_preserves:
  "guarded w ops \<Longrightarrow> error_invariant w \<Longrightarrow> error_invariant (foldl apply_operation w ops)"
proof (induction ops arbitrary: w)
  case Nil
  then show ?case by simp
next
  case (Cons x ops)
  show ?case
  proof (cases x)
    case (SetStatus s)
    with Cons.prems have g: "guarded (setStatus s w) ops"
      and c: "errorMessage (state w) = None \<or> s = Error" by simp_all
    from c Cons.prems(2) have "error_invariant (setStatus s w)"
      by (auto simp: error_invariant_def setStatus_def dispatchEvent_def)
    from Cons.IH [OF g this] SetStatus show ?thesis by simp
  next
    case (SetResult r)
    with Cons.prems have g: "guarded (setResult r w) ops" by simp
    from Cons.prems(2) have "error_invariant (setResult r w)"
      by (simp add: error_invariant_def setResult_def dispatchEvent_def)
    from Cons.IH [OF g this] SetResult show ?thesis by simp
  next
    case (SetError m)
    with Cons.prems have g: "guarded (setError m w) ops" by simp
    have "error_invariant (setError m w)"
      by (simp add: error_invariant_def setError_def dispatchEvent_def)
    from Cons.IH [OF g this] SetError show ?thesis by simp
  next
    case Reset
    with Cons.prems have g: "guarded (reset w) ops" by simp
    have "error_invariant (reset w)"
      by (simp add: error_invariant_def reset_def dispatchEvent_def)
    from Cons.IH [OF g this] Reset show ?thesis by simp
  qed
qed

lemma initial_invariant: "error_invariant initial"
  by (simp add: error_invariant_def initial_def initial_state_def)

lemma guarded_take: "guarded w ops \<Longrightarrow> guarded w (take n ops)"
proof (induction ops arbitrary: w n)
  case Nil
  then show ?case by simp
next
  case (Cons x ops)
  show ?case
  proof (cases n)
    case 0
    then show ?thesis by simp
  next
    case (Suc k)
    with Cons show ?thesis by (cases x) simp_all
  qed
qed

text \<open>
  C1, as stated, fails: \<open>setError("x")\<close> followed by \<open>setStatus("loading")\<close> leaves the
  message stored and the status "loading".
\<close>

theorem error_invariant_counterexample:
  "\<not> error_invariant (run initial [SetError (Some (lit ''x'')), SetStatus Loading])"
  by (simp add: error_invariant_def run_def initial_def initial_state_def setError_def
      setStatus_def dispatchEvent_def)

text \<open>
  C1, amended: starting from the initial state, every state reached along a guarded
  sequence of store operations (no \<open>setStatus\<close> to a status other than "error" while an
  error message is stored) has status "error" whenever its error message is non-null.
\<close>

theorem error_invariant_guarded:
  "guarded initial ops \<Longrightarrow> error_invariant (run initial (take n ops))"
  unfolding run_def by (rule guarded_preserves [OF guarded_take initial_invariant])

theorem error_invariant_guarded_witness:
  "guarded initial [SetStatus Loading, SetError (Some (lit ''x'')), SetResult None, Reset]
   \<and> errorMessage (state (run initial
        (take 3 [SetStatus Loading, SetError (Some (lit ''x'')), SetResult None, Reset]))) \<noteq> None
   \<and> status (state (run initial
        (take 3 [SetStatus Loading, SetError (Some (lit ''x'')), SetResult None, Reset]))) = Error"
proof -
  have g: "guarded initial [SetStatus Loading, SetError (Some (lit ''x'')), SetResult None, Reset]"
    by (simp add: initial_def initial_state_def)
  have m: "errorMessage (state (run initial
        (take 3 [SetStatus Loading, SetError (Some (lit ''x'')), SetResult None, Reset]))) \<noteq> None"
    by (simp add: run_def initial_def initial_state_def setError_def setStatus_def
        setResult_def dispatchEvent_def)
  from error_invariant_guarded [OF g, of 3] m show ?thesis
    using g by (simp add: error_invariant_def)
qed

text \<open>
  C2: for every message, null included, \<open>setError(msg)\<close> leaves the store with status
  "error" and error message \<open>msg\<close> (the result untouched), and dispatches one
  \<open>stateChange\<close> event carrying that state.
\<close>

theorem setError_forces_error:
  "status (state (setError msg w)) = Error
   \<and> errorMessage (state (setError msg w)) = msg
   \<and> result (state (setError msg w)) = result (state w)
   \<and> dispatched (setError msg w) = dispatched w @ [stateChange (state (setError msg w))]"
  by (simp add: setError_def dispatchEvent_def)

lemma remdups_adj_Cons_head: "\<exists>ys. remdups_adj (x # xs) = x # ys"
  by (induction xs) auto

lemma setStatus_run_dispatched:
  "dispatched (foldl apply_operation w (map SetStatus ss)) =
     dispatched w @ map (\<lambda>s. stateChange ((state w)\<lparr>status := s\<rparr>))
       (tl (remdups_adj (status (state w) # ss)))"
proof (induction ss arbitrary: w)
  case Nil
  then show ?case by simp
next
  case (Cons s ss)
  show ?case
  proof (cases "s = status (state w)")
    case True
    then have "setStatus s w = w" by (simp add: setStatus_def)
    with Cons.IH [of w] True show ?thesis by simp
  next
    case False
    let ?w = "setStatus s w"
    have st: "state ?w = (state w)\<lparr>status := s\<rparr>"
      and d: "dispatched ?w = dispatched w @ [stateChange ((state w)\<lparr>status := s\<rparr>)]"
      using False by (simp_all add: setStatus_def dispatchEvent_def)
    let ?f = "\<lambda>s'. stateChange ((state w)\<lparr>status := s'\<rparr>)"
    from False have t: "tl (remdups_adj (status (state w) # s # ss)) = remdups_adj (s # ss)"
      by simp
    obtain ys where ys: "remdups_adj (s # ss) = s # ys"
      using remdups_adj_Cons_head [of s ss] by blast
    have m: "map ?f (remdups_adj (s # ss)) = ?f s # map ?f (tl (remdups_adj (s # ss)))"
      unfolding ys by simp
    have "dispatched (foldl apply_operation w (map SetStatus (s # ss)))
        = dispatched (foldl apply_operation ?w (map SetStatus ss))"
      by simp
    also have "\<dots> = dispatched ?w @ map (\<lambda>s'. stateChange ((state ?w)\<lparr>status := s'\<rparr>))
          (tl (remdups_adj (status (state ?w) # ss)))"
      by (rule Cons.IH)
    also have "\<dots> = dispatched w @ (?f s # map ?f (tl (remdups_adj (s # ss))))"
      by (simp add: st d)
    also have "\<dots> = dispatched w @ map ?f (tl (remdups_adj (status (state w) # s # ss)))"
      by (simp only: t m)
    finally show ?thesis .
  qed
qed

text \<open>
  C9: \<open>setStatus(s)\<close> with \<open>s\<close> the current status leaves the store as it is, state
  and dispatched events alike; calling it twice is calling it once; and a sequence of
  \<open>setStatus\<close> calls fires exactly one event per change of value, so the statuses
  carried by the events it fires are the sequence with adjacent repetitions removed.
\<close>

theorem setStatus_current_noop:
  "(status (state w) = s \<longrightarrow> setStatus s w = w)
   \<and> setStatus s (setStatus s w) = setStatus s w
   \<and> map (\<lambda>e. status (detail e)) (fired w (run w (map SetStatus ss)))
       = tl (remdups_adj (status (state w) # ss))"
proof -
  have a: "status (state w) = s \<longrightarrow> setStatus s w = w"
    by (simp add: setStatus_def)
  have b: "setStatus s (setStatus s w) = setStatus s w"
    by (simp add: setStatus_def dispatchEvent_def)
  have c: "map (\<lambda>e. status (detail e)) (fired w (run w (map SetStatus ss)))
       = tl (remdups_adj (status (state w) # ss))"
    by (simp add: fired_def run_def setStatus_run_dispatched stateChange_def comp_def)
  from a b c show ?thesis by blast
qed

theorem setStatus_current_noop_witness:
  "status (state initial) = Idle \<and> setStatus Idle initial = initial
   \<and> map (\<lambda>e. status (detail e))
        (fired initial (run initial (map SetStatus [Idle, Loading, Loading, Idle, Idle])))
       = [Loading, Idle]"
  using setStatus_current_noop [of initial Idle "[Idle, Loading, Loading, Idle, Idle]"]
  by (simp add: initial_def initial_state_def)

section \<open>Detection data: properties\<close>

lemma extract_returns:
  assumes "\<not> nullish r"
    and "ToNumber P (coalesce (member r Confidence) (JNum (Fin 0))) = Inr n"
    and "(if truthy (handRaw r) then capitalize P (handRaw r) else Inr em_dash) = Inr h"
  shows "extractDetectionData P r =
     Inr \<lparr>detectedLetter =
            coalesce (member r Detected_as) (coalesce (member r Predicted_as) (JStr (lit ''-''))),
          confidenceNum = n,
          confidencePct = Number_toString P (Math_round (times_number n (Fin 100))) @ lit ''%'',
          handDetected = h\<rparr>"
  using assms by (simp add: extractDetectionData_def get_def)

lemma confidence_number:
  assumes "confidence_is_number r"
  shows "\<exists>n. ToNumber P (coalesce (member r Confidence) (JNum (Fin 0))) = Inr n"
  using assms by (auto simp: confidence_is_number_def coalesce_def nullish_def split: val.splits)

lemma confidence_range:
  assumes "confidence_in_range r"
  shows "\<exists>n. ToNumber P (coalesce (member r Confidence) (JNum (Fin 0))) = Inr n
              \<and> in_unit_interval n"
  using assms by (auto simp: confidence_in_range_def coalesce_def nullish_def split: val.splits)

lemma capitalize_left: "capitalize P (JStr (lit ''left'')) = Inr (lit ''Left'')"
  by (simp add: toUpperCase_def charAt_def slice_def lit_def)

lemma capitalize_right: "capitalize P (JStr (lit ''right'')) = Inr (lit ''Right'')"
  by (simp add: toUpperCase_def charAt_def slice_def lit_def)

lemma capitalize_Left: "capitalize P (JStr (lit ''Left'')) = Inr (lit ''Left'')"
  by (simp add: toUpperCase_def charAt_def slice_def lit_def)

lemma capitalize_Right: "capitalize P (JStr (lit ''Right'')) = Inr (lit ''Right'')"
  by (simp add: toUpperCase_def charAt_def slice_def lit_def)

lemma lit_nonempty: "lit (c # cs) \<noteq> []"
  by (simp add: lit_def)

lemma handRaw_cases:
  "handRaw r = (if \<not> nullish (handedness_entry r) then handedness_entry r
     else if truthy (opt (side_landmarks r Right) Length) then JStr (lit ''right'')
     else if truthy (opt (side_landmarks r Left) Length) then JStr (lit ''left'')
     else JNull)"
  by (simp add: handRaw_def coalesce_def)

lemma hand_of_side:
  assumes "handedness_is_side r"
  shows "\<exists>h. (if truthy (handRaw r) then capitalize P (handRaw r) else Inr em_dash) = Inr h
      \<and> (h = lit ''Left'' \<or> h = lit ''Right'' \<or> h = em_dash)"
proof (cases "nullish (handedness_entry r)")
  case True
  then show ?thesis
    by (simp add: handRaw_cases capitalize_left capitalize_right lit_nonempty
        del: capitalize.simps)
next
  case False
  with assms obtain s where s: "handedness_entry r = JStr s"
    and c: "s = lit ''left'' \<or> s = lit ''right'' \<or> s = lit ''Left'' \<or> s = lit ''Right''"
    by (auto simp: handedness_is_side_def nullish_def split: val.splits)
  from False s have "handRaw r = JStr s" by (simp add: handRaw_cases)
  with c show ?thesis
    by (auto simp: capitalize_left capitalize_right capitalize_Left capitalize_Right
        lit_nonempty simp del: capitalize.simps)
qed

text \<open>
  C3, amended: for every record that is not null, whose confidence is absent, null or
  a number in [0,1], and whose first handedness entry is absent, null or one of
  "left", "right", "Left", "Right", \<open>extractDetectionData\<close> returns a record with
  \<open>confidenceNum\<close> in [0,1] and \<open>handDetected\<close> one of "Left", "Right" and the
  em dash.
\<close>

theorem detection_in_range:
  assumes "\<not> nullish r" and "confidence_in_range r" and "handedness_is_side r"
  shows "\<exists>d. extractDetectionData P r = Inr d
     \<and> in_unit_interval (confidenceNum d)
     \<and> (handDetected d = lit ''Left'' \<or> handDetected d = lit ''Right''
         \<or> handDetected d = em_dash)"
proof -
  from confidence_range [OF assms(2)] obtain n
    where n: "ToNumber P (coalesce (member r Confidence) (JNum (Fin 0))) = Inr n"
      and i: "in_unit_interval n" by blast
  from hand_of_side [OF assms(3)] obtain h
    where h: "(if truthy (handRaw r) then capitalize P (handRaw r) else Inr em_dash) = Inr h"
      and s: "h = lit ''Left'' \<or> h = lit ''Right'' \<or> h = em_dash" by blast
  from extract_returns [OF assms(1) n h] i s show ?thesis by simp
qed


text \<open>
  C3, as stated, fails: the confidence and the handedness of the response are passed
  on as they come. A confidence of 5 and a handedness of "both" give \<open>confidenceNum\<close> 5
  and \<open>handDetected\<close> "Both".
\<close>

theorem detection_out_of_range:
  "extractDetectionData a_platform
     (JObj [(lit ''confidence'', JNum (Fin 5)),
            (lit ''metadata'', JObj [(lit ''handedness'', JArr [JStr (lit ''both'')])])])
   = Inr \<lparr>detectedLetter = JStr (lit ''-''), confidenceNum = Fin 5,
          confidencePct = lit ''500%'', handDetected = lit ''Both''\<rparr>
   \<and> \<not> in_unit_interval (Fin 5)
   \<and> lit ''Both'' \<noteq> lit ''Left'' \<and> lit ''Both'' \<noteq> lit ''Right'' \<and> lit ''Both'' \<noteq> em_dash"
  by code_simp

theorem detection_in_range_witness:
  "\<not> nullish (JObj [(lit ''confidence'', JNum (Fin (1 / 2))),
            (lit ''metadata'', JObj [(lit ''handedness'', JArr [JStr (lit ''left'')])])])
   \<and> confidence_in_range (JObj [(lit ''confidence'', JNum (Fin (1 / 2))),
            (lit ''metadata'', JObj [(lit ''handedness'', JArr [JStr (lit ''left'')])])])
   \<and> handedness_is_side (JObj [(lit ''confidence'', JNum (Fin (1 / 2))),
            (lit ''metadata'', JObj [(lit ''handedness'', JArr [JStr (lit ''left'')])])])
   \<and> (\<exists>d. extractDetectionData a_platform
          (JObj [(lit ''confidence'', JNum (Fin (1 / 2))),
            (lit ''metadata'', JObj [(lit ''handedness'', JArr [JStr (lit ''left'')])])])
          = Inr d
        \<and> in_unit_interval (confidenceNum d)
        \<and> (handDetected d = lit ''Left'' \<or> handDetected d = lit ''Right''
            \<or> handDetected d = em_dash))"
proof -
  let ?r = "JObj [(lit ''confidence'', JNum (Fin (1 / 2))),
            (lit ''metadata'', JObj [(lit ''handedness'', JArr [JStr (lit ''left'')])])]"
  have a: "\<not> nullish ?r" by code_simp
  have b: "confidence_in_range ?r" by code_simp
  have c: "handedness_is_side ?r" by code_simp
  from detection_in_range [OF a b c, of a_platform] a b c show ?thesis by blast
qed

lemma to_double_873: "to_double (873 / 1000) = Fin (3931642474694443 / 4503599627370496)"
  by code_simp

lemma times_873:
  "times_number (Fin (3931642474694443 / 4503599627370496)) (Fin 100)
     = Fin (6143191366710067 / 70368744177664)"
  by code_simp

lemma round_873: "Math_round (Fin (6143191366710067 / 70368744177664)) = Fin 87"
  by code_simp

lemma percent_873:
  "Number_toString P (Math_round (times_number (to_double (873 / 1000)) (Fin 100))) = lit ''87''"
  unfolding to_double_873 times_873 round_873 by (simp add: decimal.simps lit_def)

lemma percent_0:
  "Number_toString P (Math_round (times_number (Fin 0) (Fin 100))) = lit ''0''"
  by (simp add: times_number_def Let_def decimal.simps lit_def)

text \<open>
  C4: for the response \<open>{detected_as: "A", confidence: 0.873, metadata: {handedness:
  ["right"]}}\<close>, 0.873 being the double the literal denotes, \<open>extractDetectionData\<close>
  returns exactly \<open>{detectedLetter: "A", confidenceNum: 0.873, confidencePct: "87%",
  handDetected: "Right"}\<close>.
\<close>

theorem extract_example:
  "extractDetectionData P
     (JObj [(lit ''detected_as'', JStr (lit ''A'')),
            (lit ''confidence'', JNum (to_double (873 / 1000))),
            (lit ''metadata'', JObj [(lit ''handedness'', JArr [JStr (lit ''right'')])])])
   = Inr \<lparr>detectedLetter = JStr (lit ''A''),
          confidenceNum = to_double (873 / 1000),
          confidencePct = lit ''87%'',
          handDetected = lit ''Right''\<rparr>"
proof -
  let ?r = "JObj [(lit ''detected_as'', JStr (lit ''A'')),
            (lit ''confidence'', JNum (to_double (873 / 1000))),
            (lit ''metadata'', JObj [(lit ''handedness'', JArr [JStr (lit ''right'')])])]"
  have m: "member ?r Detected_as = JStr (lit ''A'')"
    "member ?r Confidence = JNum (to_double (873 / 1000))"
    "member ?r Metadata = JObj [(lit ''handedness'', JArr [JStr (lit ''right'')])]"
    by (simp_all add: lit_def)
  have h: "handedness_entry ?r = JStr (lit ''right'')"
    unfolding handedness_entry_def opt_def m by (simp add: nullish_def lit_def)
  have n: "\<not> nullish ?r" by (simp add: nullish_def)
  have c: "ToNumber P (coalesce (member ?r Confidence) (JNum (Fin 0)))
      = Inr (to_double (873 / 1000))"
    unfolding m by (simp add: coalesce_def nullish_def)
  have r: "handRaw ?r = JStr (lit ''right'')"
    unfolding handRaw_cases h by (simp add: nullish_def)
  have k: "(if truthy (handRaw ?r) then capitalize P (handRaw ?r) else Inr em_dash)
      = Inr (lit ''Right'')"
    unfolding r by (simp add: capitalize_right lit_nonempty del: capitalize.simps)
  have l: "coalesce (member ?r Detected_as) (coalesce (member ?r Predicted_as) (JStr (lit ''-'')))
      = JStr (lit ''A'')"
    unfolding m by (simp add: coalesce_def nullish_def)
  have p: "lit ''87'' @ lit ''%'' = lit ''87%''" by (simp add: lit_def)
  show ?thesis
    unfolding extract_returns [OF n c k] l percent_873 p ..
qed


lemma no_landmarks_falsy: "no_landmarks v \<Longrightarrow> \<not> truthy (opt v Length)"
  by (auto simp: no_landmarks_def opt_def nullish_def)

lemma nonempty_list_truthy: "nonempty_list v \<Longrightarrow> truthy (opt v Length)"
  by (cases v rule: nonempty_list.cases) (simp_all add: opt_def nullish_def)

lemma hand_of_string:
  assumes "handedness_is_string r"
  shows "\<exists>h. (if truthy (handRaw r) then capitalize P (handRaw r) else Inr em_dash) = Inr h"
proof (cases "nullish (handedness_entry r)")
  case True
  then show ?thesis by (simp add: handRaw_cases)
next
  case False
  with assms obtain s where "handedness_entry r = JStr s"
    by (auto simp: handedness_is_string_def nullish_def split: val.splits)
  with False have "handRaw r = JStr s" by (simp add: handRaw_cases)
  then show ?thesis by simp
qed

text \<open>
  The function returns whenever the record is not null, its confidence is absent,
  null or a number, and its first handedness entry is absent, null or a string.
\<close>

lemma extract_returns_typed:
  assumes "\<not> nullish r" and "confidence_is_number r" and "handedness_is_string r"
  shows "\<exists>d. extractDetectionData P r = Inr d"
proof -
  from confidence_number [OF assms(2)] obtain n
    where n: "ToNumber P (coalesce (member r Confidence) (JNum (Fin 0))) = Inr n" by blast
  from hand_of_string [OF assms(3)] obtain h
    where h: "(if truthy (handRaw r) then capitalize P (handRaw r) else Inr em_dash) = Inr h"
    by blast
  from extract_returns [OF assms(1) n h] show ?thesis by simp
qed

text \<open>
  C6: for every record with no \<open>detected_as\<close>, no \<open>predicted_as\<close>, no
  \<open>confidence\<close> (absent or null), no handedness entry and no non-empty landmark list
  on either side, \<open>extractDetectionData\<close> returns, without an error, the record
  \<open>{detectedLetter: "-", confidenceNum: 0, confidencePct: "0%", handDetected: em dash}\<close>.
\<close>

theorem extract_defaults:
  assumes "\<not> nullish r"
    and "nullish (member r Detected_as)" and "nullish (member r Predicted_as)"
    and "nullish (member r Confidence)"
    and "nullish (handedness_entry r)"
    and "no_landmarks (side_landmarks r Right)" and "no_landmarks (side_landmarks r Left)"
  shows "extractDetectionData P r =
     Inr \<lparr>detectedLetter = JStr (lit ''-''), confidenceNum = Fin 0,
          confidencePct = lit ''0%'', handDetected = em_dash\<rparr>"
proof -
  from assms(4) have n: "ToNumber P (coalesce (member r Confidence) (JNum (Fin 0))) = Inr (Fin 0)"
    by (simp add: coalesce_def)
  from assms(5) no_landmarks_falsy [OF assms(6)] no_landmarks_falsy [OF assms(7)]
  have "handRaw r = JNull" by (simp add: handRaw_cases)
  then have h: "(if truthy (handRaw r) then capitalize P (handRaw r) else Inr em_dash)
      = Inr em_dash" by simp
  from assms(2,3)
  have l: "coalesce (member r Detected_as) (coalesce (member r Predicted_as) (JStr (lit ''-'')))
      = JStr (lit ''-'')" by (simp add: coalesce_def)
  have p: "lit ''0'' @ lit ''%'' = lit ''0%''" by (simp add: lit_def)
  show ?thesis
    unfolding extract_returns [OF assms(1) n h] l percent_0 p ..
qed

theorem extract_defaults_witness:
  "extractDetectionData a_platform
     (JObj [(lit ''metadata'', JObj [(lit ''landmarks'', JObj [(lit ''left'', JArr [])])])])
   = Inr \<lparr>detectedLetter = JStr (lit ''-''), confidenceNum = Fin 0,
          confidencePct = lit ''0%'', handDetected = em_dash\<rparr>"
proof -
  let ?r = "JObj [(lit ''metadata'', JObj [(lit ''landmarks'', JObj [(lit ''left'', JArr [])])])]"
  have a: "\<not> nullish ?r" by code_simp
  have b: "nullish (member ?r Detected_as)" by code_simp
  have c: "nullish (member ?r Predicted_as)" by code_simp
  have d: "nullish (member ?r Confidence)" by code_simp
  have e: "nullish (handedness_entry ?r)" by code_simp
  have f: "no_landmarks (side_landmarks ?r Right)" by code_simp
  have g: "no_landmarks (side_landmarks ?r Left)" by code_simp
  from extract_defaults [OF a b c d e f g, of a_platform] show ?thesis .
qed

text \<open>
  C5, amended: for every record that is not null, with a confidence that is absent,
  null or a number, with no handedness entry, with a non-empty \<open>landmarks.left\<close> list
  and with \<open>landmarks.right\<close> absent, null or empty, the derived \<open>handDetected\<close> is
  "Left".
\<close>

theorem left_landmarks_only:
  assumes "\<not> nullish r" and "confidence_is_number r"
    and "nullish (handedness_entry r)"
    and "nonempty_list (side_landmarks r Left)"
    and "no_landmarks (side_landmarks r Right)"
  shows "\<exists>d. extractDetectionData P r = Inr d \<and> handDetected d = lit ''Left''"
proof -
  from confidence_number [OF assms(2)] obtain n
    where n: "ToNumber P (coalesce (member r Confidence) (JNum (Fin 0))) = Inr n" by blast
  from assms(3) nonempty_list_truthy [OF assms(4)] no_landmarks_falsy [OF assms(5)]
  have "handRaw r = JStr (lit ''left'')" by (simp add: handRaw_cases)
  then have h: "(if truthy (handRaw r) then capitalize P (handRaw r) else Inr em_dash)
      = Inr (lit ''Left'')"
    by (simp add: capitalize_left lit_nonempty del: capitalize.simps)
  from extract_returns [OF assms(1) n h] show ?thesis by simp
qed

theorem left_landmarks_only_witness:
  "nullish (handedness_entry
      (JObj [(lit ''metadata'', JObj [(lit ''landmarks'',
         JObj [(lit ''left'', JArr [JArr [JNum (Fin 0), JNum (Fin 0), JNum (Fin 0)]]),
               (lit ''right'', JArr [])])])]))
   \<and> nonempty_list (side_landmarks
      (JObj [(lit ''metadata'', JObj [(lit ''landmarks'',
         JObj [(lit ''left'', JArr [JArr [JNum (Fin 0), JNum (Fin 0), JNum (Fin 0)]]),
               (lit ''right'', JArr [])])])]) Left)
   \<and> (\<exists>d. extractDetectionData a_platform
      (JObj [(lit ''metadata'', JObj [(lit ''landmarks'',
         JObj [(lit ''left'', JArr [JArr [JNum (Fin 0), JNum (Fin 0), JNum (Fin 0)]]),
               (lit ''right'', JArr [])])])])
       = Inr d \<and> handDetected d = lit ''Left'')"
proof -
  let ?r = "JObj [(lit ''metadata'', JObj [(lit ''landmarks'',
         JObj [(lit ''left'', JArr [JArr [JNum (Fin 0), JNum (Fin 0), JNum (Fin 0)]]),
               (lit ''right'', JArr [])])])]"
  have a: "\<not> nullish ?r" by code_simp
  have b: "confidence_is_number ?r" by code_simp
  have c: "nullish (handedness_entry ?r)" by code_simp
  have d: "nonempty_list (side_landmarks ?r Left)" by code_simp
  have e: "no_landmarks (side_landmarks ?r Right)" by code_simp
  from left_landmarks_only [OF a b c d e, of a_platform] c d show ?thesis by blast
qed

text \<open>
  C5, as stated, fails: the right side is looked at first, so a response with
  landmarks on both sides and no handedness entry gives "Right".
\<close>

theorem left_landmarks_both_sides:
  "nullish (handedness_entry
     (JObj [(lit ''metadata'', JObj [(lit ''landmarks'',
        JObj [(lit ''left'', JArr [JArr [JNum (Fin 0), JNum (Fin 0), JNum (Fin 0)]]),
              (lit ''right'', JArr [JArr [JNum (Fin 0), JNum (Fin 0), JNum (Fin 0)]])])])]))
   \<and> nonempty_list (side_landmarks
     (JObj [(lit ''metadata'', JObj [(lit ''landmarks'',
        JObj [(lit ''left'', JArr [JArr [JNum (Fin 0), JNum (Fin 0), JNum (Fin 0)]]),
              (lit ''right'', JArr [JArr [JNum (Fin 0), JNum (Fin 0), JNum (Fin 0)]])])])]) Left)
   \<and> extractDetectionData a_platform
     (JObj [(lit ''metadata'', JObj [(lit ''landmarks'',
        JObj [(lit ''left'', JArr [JArr [JNum (Fin 0), JNum (Fin 0), JNum (Fin 0)]]),
              (lit ''right'', JArr [JArr [JNum (Fin 0), JNum (Fin 0), JNum (Fin 0)]])])])])
     = Inr \<lparr>detectedLetter = JStr (lit ''-''), confidenceNum = Fin 0,
          confidencePct = lit ''0%'', handDetected = lit ''Right''\<rparr>
   \<and> lit ''Right'' \<noteq> lit ''Left''"
  by code_simp

lemma success_response_typed:
  assumes "success_response r"
  shows "\<not> nullish r" and "confidence_is_number r" and "handedness_is_string r"
proof -
  from assms obtain kvs where r: "r = JObj kvs"
    by (cases r) (simp_all add: success_response_def)
  then show "\<not> nullish r" by (simp add: nullish_def)
  from assms show "confidence_is_number r"
    by (auto simp: success_response_def optional_def nullish_def confidence_is_number_def
        elim: is_number.elims)
  from assms have m: "optional metadata_shape (member r Metadata)"
    by (simp add: success_response_def)
  show "handedness_is_string r"
  proof (cases "nullish (member r Metadata)")
    case True
    then show ?thesis
      by (auto simp: handedness_is_string_def handedness_entry_def opt_def nullish_def r)
  next
    case False
    with m obtain ms where ms: "member r Metadata = JObj ms"
      and h: "optional is_string_array (member (JObj ms) Handedness)"
      by (auto simp: optional_def metadata_shape_def elim: is_object.elims)
    have e: "handedness_entry r = opt_first (member (JObj ms) Handedness)"
      using ms by (simp add: handedness_entry_def opt_def nullish_def r)
    from h show ?thesis
      unfolding handedness_is_string_def e
      by (auto simp: optional_def nullish_def list_all_iff
          elim!: is_string_array.elims is_string.elims split: list.splits)
  qed
qed

text \<open>
  C10: for every success response of the interface description, with any of its
  fields present, absent or null and the metadata object possibly absent,
  \<open>extractDetectionData\<close> returns a record and does not throw.
\<close>

theorem extract_total:
  assumes "success_response r"
  shows "\<exists>d. extractDetectionData P r = Inr d"
  using extract_returns_typed [OF success_response_typed [OF assms]] .

theorem extract_total_witness:
  "success_response
     (JObj [(lit ''detected_as'', JNull), (lit ''confidence'', JNum (Fin (1 / 2))),
        (lit ''metadata'',
           JObj [(lit ''handedness'', JArr [JStr (lit ''left'')]), (lit ''landmarks'', JNull)])])
   \<and> (\<exists>d. extractDetectionData a_platform
     (JObj [(lit ''detected_as'', JNull), (lit ''confidence'', JNum (Fin (1 / 2))),
        (lit ''metadata'',
           JObj [(lit ''handedness'', JArr [JStr (lit ''left'')]), (lit ''landmarks'', JNull)])])
     = Inr d)"
proof -
  let ?r = "JObj [(lit ''detected_as'', JNull), (lit ''confidence'', JNum (Fin (1 / 2))),
        (lit ''metadata'',
           JObj [(lit ''handedness'', JArr [JStr (lit ''left'')]), (lit ''landmarks'', JNull)])]"
  have a: "success_response ?r" by code_simp
  from extract_total [OF a, of a_platform] a show ?thesis by blast
qed

text \<open>
  Outside that shape the function can throw: a record that is null has no
  \<open>detected_as\<close> to read, and a handedness entry that is a number has no \<open>charAt\<close>.
\<close>

lemma extract_throws_untyped:
  "extractDetectionData P JNull = Inl TypeError"
  "extractDetectionData P
     (JObj [(lit ''metadata'', JObj [(lit ''handedness'', JArr [JNum (Fin 5)])])])
   = Inl TypeError"
  by (simp_all add: extractDetectionData_def get_def nullish_def coalesce_def handRaw_def
      handedness_entry_def opt_def lit_def)

section \<open>Upload errors and the capture flow: properties\<close>

text \<open>
  A response with a status outside 200 to 299 makes the upload fail with what
  \<open>handleServerError\<close> throws; the request has been sent.
\<close>

lemma sendImageToServer_error_status:
  assumes "fetch env
      \<lparr>endpoint = API_URL env @ lit ''/process/'', http_method = ''POST'', image = b,
       filename = letter @ lit ''_'' @ takeWhile (\<lambda>c. c \<noteq> 0x2D) (randomUUID env) @ lit ''.png'',
       label = letter\<rparr> = Inr r"
    and "\<not> ok r"
  shows "fst (sendImageToServer P env b letter pg) = Inl (handleServerError P r)"
  using assms by (simp add: sendImageToServer_def Let_def)

lemma handleServerError_unparsed:
  assumes "content r = Some b" and "parsed b = None"
  shows "handleServerError P r = TypeError"
  using assms by (simp add: handleServerError_def response_json_def catch_text_def response_text_def)

lemma handleServerError_detail:
  assumes "content r = Some b" and "\<not> bodyUsed r" and "parsed b = Some payload"
    and "\<not> nullish payload" and "member payload Detail = JStr s"
  shows "handleServerError P r = ThrownError (errorDetail P r @ lit '': '' @ s)"
  using assms by (simp add: handleServerError_def response_json_def get_def nullish_def)

lemma handleServerError_no_detail:
  assumes "content r = Some b" and "\<not> bodyUsed r" and "parsed b = Some payload"
    and "\<not> nullish payload" and "nullish (member payload Detail)"
  shows "handleServerError P r
    = ThrownError (errorDetail P r @ lit '': '' @ JSON_stringify P payload)"
  using assms by (simp add: handleServerError_def response_json_def get_def)

text \<open>
  With a JSON body the error is the one intended: the status and the detail, or the
  status and the serialized payload.
\<close>

lemma handleServerError_bad_image:
  "handleServerError P
     \<lparr>http_status = 422,
      content = Some \<lparr>body_text = lit ''{\"detail\": \"bad image\"}'',
                      parsed = Some (JObj [(lit ''detail'', JStr (lit ''bad image''))])\<rparr>,
      bodyUsed = False\<rparr> = ThrownError (lit ''HTTP 422: bad image'')"
  by (simp add: handleServerError_def response_json_def get_def nullish_def errorDetail_def
      decimal.simps lit_def)

lemma handleServerError_null_payload:
  assumes "content r = Some b" and "parsed b = Some JNull"
  shows "handleServerError P r = TypeError"
  using assms
  by (simp add: handleServerError_def response_json_def catch_text_def response_text_def
      get_def nullish_def)

text \<open>
  C7, at a response whose body is not JSON (status 500, body "Internal Server Error"):
  \<open>response.json()\<close> has read the body when its parse fails, so the \<open>response.text()\<close>
  of the \<open>catch\<close> block rejects, and what \<open>handleServerError\<close> throws is that
  TypeError, not an error with the HTTP status and the raw text.
\<close>

theorem handleServerError_plain_text:
  "handleServerError P
     \<lparr>http_status = 500,
      content = Some \<lparr>body_text = lit ''Internal Server Error'', parsed = None\<rparr>,
      bodyUsed = False\<rparr> = TypeError"
  by (simp add: handleServerError_unparsed)

text \<open>
  C8: a click on the capture button with no letter selected (no radio checked, or a
  checked radio with an empty value) shows the alert and changes nothing else: no frame
  is drawn to the offscreen canvas, no request is sent, and \<open>MSL_STATE\<close>, the state
  store, the result elements and the console are as before.
\<close>

theorem capture_without_letter:
  assumes "getSelectedLetter pg = None"
  shows "captureSnapshot P env pg =
       pg\<lparr>alerts := alerts pg @ [lit ''Please select a letter before capturing.'']\<rparr>
     \<and> requests (captureSnapshot P env pg) = requests pg
     \<and> offscreen (captureSnapshot P env pg) = offscreen pg
     \<and> MSL_STATE (captureSnapshot P env pg) = MSL_STATE pg
     \<and> app (captureSnapshot P env pg) = app pg
     \<and> resultLetter (captureSnapshot P env pg) = resultLetter pg
     \<and> resultConfidence (captureSnapshot P env pg) = resultConfidence pg
     \<and> resultHand (captureSnapshot P env pg) = resultHand pg
     \<and> console (captureSnapshot P env pg) = console pg"
  using assms by (simp add: captureSnapshot_def)

theorem capture_without_letter_witness:
  "getSelectedLetter blank_page = None
   \<and> captureSnapshot a_platform offline blank_page =
       blank_page\<lparr>alerts := [lit ''Please select a letter before capturing.'']\<rparr>
   \<and> requests (captureSnapshot a_platform offline blank_page) = []
   \<and> offscreen (captureSnapshot a_platform offline blank_page) = Some []"
proof -
  have a: "getSelectedLetter blank_page = None"
    by (simp add: getSelectedLetter_def blank_page_def)
  from capture_without_letter [OF a, of a_platform offline] a show ?thesis
    by (simp add: blank_page_def)
qed

text \<open>
  With a letter selected the flow does draw the frame and send the request; here the
  network is down and the rejection of \<open>fetch\<close> is logged.
\<close>

lemma capture_with_letter:
  "captureSnapshot a_platform offline (blank_page\<lparr>checked_letter := Some (lit ''A'')\<rparr>) =
     blank_page
       \<lparr>checked_letter := Some (lit ''A''),
        offscreen := Some [1, 2, 3],
        console := [ConsoleError TypeError],
        requests := [\<lparr>endpoint = lit ''http://127.0.0.1:8000/process/'',
                      http_method = ''POST'',
                      image = Png [1, 2, 3],
                      filename = lit ''A_0f8fad5b.png'',
                      label = lit ''A''\<rparr>]\<rparr>"
  by (simp add: captureSnapshot_def getSelectedLetter_def blank_page_def captureVideoFrame_def
      sendImageToServer_def offline_def API_URL_def log_error_def lit_def)

end
